theory Spec2Isabelle
  imports Main "HOL-Library.AList"
begin

section \<open>Strings\<close>

text \<open>
  A JavaScript string is modelled as a \<^typ>\<open>string\<close>: the list of the bytes of its UTF-8
  encoding (a string of well-formed UTF-16). A white-space code point is recognised by
  its encoding: every encoding below starts with an ASCII byte or a lead byte, so it
  matches at a byte of a well-formed string only where a code point starts, and at its
  end only where one ends.
\<close>

text \<open>
  \<open>toLowerCase\<close> maps the ASCII capitals. The lower-case form of any other letter has
  no ASCII character but for U+0130, which gives \<open>i\<close> followed by U+0307, and U+212A,
  which gives \<open>k\<close>; neither can complete one of the ASCII prefixes that its result is
  compared with in this program.
\<close>

definition lower_char :: "char \<Rightarrow> char" where
  "lower_char c =
     (case map_of (zip ''ABCDEFGHIJKLMNOPQRSTUVWXYZ'' ''abcdefghijklmnopqrstuvwxyz'') c of
        Some d \<Rightarrow> d
      | None \<Rightarrow> c)"

definition toLowerCase :: "string \<Rightarrow> string" where
  "toLowerCase s = map lower_char s"

definition startsWith :: "string \<Rightarrow> string \<Rightarrow> bool" where
  "startsWith s p = (take (length p) s = p)"

definition endsWith :: "string \<Rightarrow> string \<Rightarrow> bool" where
  "endsWith s p = (length p \<le> length s \<and> drop (length s - length p) s = p)"

text \<open>
  The code points that the class \<open>\s\<close> of a regular expression matches and that \<open>trim\<close>
  removes (WhiteSpace and LineTerminator of ECMAScript): U+0009 to U+000D, U+0020,
  U+00A0, U+1680, U+2000 to U+200A, U+2028, U+2029, U+202F, U+205F, U+3000 and U+FEFF.
\<close>

definition white_space :: "string list" where
  "white_space =
     [[CHR 0x09], [CHR 0x0A], [CHR 0x0B], [CHR 0x0C], [CHR 0x0D], [CHR 0x20],
      [CHR 0xC2, CHR 0xA0],
      [CHR 0xE1, CHR 0x9A, CHR 0x80],
      [CHR 0xE2, CHR 0x80, CHR 0x80], [CHR 0xE2, CHR 0x80, CHR 0x81],
      [CHR 0xE2, CHR 0x80, CHR 0x82], [CHR 0xE2, CHR 0x80, CHR 0x83],
      [CHR 0xE2, CHR 0x80, CHR 0x84], [CHR 0xE2, CHR 0x80, CHR 0x85],
      [CHR 0xE2, CHR 0x80, CHR 0x86], [CHR 0xE2, CHR 0x80, CHR 0x87],
      [CHR 0xE2, CHR 0x80, CHR 0x88], [CHR 0xE2, CHR 0x80, CHR 0x89],
      [CHR 0xE2, CHR 0x80, CHR 0x8A],
      [CHR 0xE2, CHR 0x80, CHR 0xA8], [CHR 0xE2, CHR 0x80, CHR 0xA9],
      [CHR 0xE2, CHR 0x80, CHR 0xAF],
      [CHR 0xE2, CHR 0x81, CHR 0x9F],
      [CHR 0xE3, CHR 0x80, CHR 0x80],
      [CHR 0xEF, CHR 0xBB, CHR 0xBF]]"

text \<open>The number of bytes of the white-space code point a string starts with, or ends
  with; 0 when there is none.\<close>

definition leading_space :: "string \<Rightarrow> nat" where
  "leading_space s =
     (case filter (startsWith s) white_space of [] \<Rightarrow> 0 | w # _ \<Rightarrow> length w)"

definition trailing_space :: "string \<Rightarrow> nat" where
  "trailing_space s =
     (case filter (endsWith s) white_space of [] \<Rightarrow> 0 | w # _ \<Rightarrow> length w)"

text \<open>\<open>s.replace(/\s+/g, "")\<close>: every run of white space is removed.\<close>

function remove_spaces :: "string \<Rightarrow> string" where
  "remove_spaces [] = []"
| "remove_spaces (c # cs) =
     (case leading_space (c # cs) of
        0 \<Rightarrow> c # remove_spaces cs
      | Suc n \<Rightarrow> remove_spaces (drop n cs))"
  by pat_completeness auto
termination
  by (relation "measure length") auto

text \<open>\<open>s.trim()\<close>: the white space at both ends is removed.\<close>

function trimStart :: "string \<Rightarrow> string" where
  "trimStart [] = []"
| "trimStart (c # cs) =
     (case leading_space (c # cs) of
        0 \<Rightarrow> c # cs
      | Suc n \<Rightarrow> trimStart (drop n cs))"
  by pat_completeness auto
termination
  by (relation "measure length") auto

function trimEnd :: "string \<Rightarrow> string" where
  "trimEnd s =
     (if s = [] then []
      else case trailing_space s of
        0 \<Rightarrow> s
      | Suc n \<Rightarrow> trimEnd (take (length s - Suc n) s))"
  by pat_completeness auto
termination
  by (relation "measure length") auto

declare trimEnd.simps [simp del]

definition trim :: "string \<Rightarrow> string" where
  "trim s = trimEnd (trimStart s)"

section \<open>Field codes (tools.ts)\<close>

definition normalizeFieldCode :: "string \<Rightarrow> string" where
  "normalizeFieldCode fieldCode =
     (let code = remove_spaces (toLowerCase fieldCode) in
      if startsWith code ''offer'' then ''Offered Date''
      else if startsWith code ''birth'' \<or> startsWith code ''dob'' then ''Birth Date''
      else if startsWith code ''join'' then ''Date Of Joining''
      else if startsWith code ''confirmation'' then ''Confirmation Date''
      else if startsWith code ''relieving'' then ''Date Of Relieving''
      else if startsWith code ''retirement'' then ''Retirement Date''
      else if startsWith code ''l1'' then ''L1ManagerName''
      else if startsWith code ''l2'' then ''L2ManagerName''
      else fieldCode)"

section \<open>JSON values\<close>

text \<open>
  The value \<open>JSON.parse\<close> and \<open>res.json()\<close> produce. A number is held as the decimal
  text \<open>String(n)\<close> gives for it (\<open>0\<close> for both zeros), which is also what
  \<open>JSON.stringify\<close> prints; an object is the list of its properties, each key once, in
  insertion order. \<open>None\<close> of type \<^typ>\<open>'a option\<close> stands for \<open>undefined\<close>.
\<close>

datatype json =
    JNull
  | JBool bool
  | JNum string
  | JStr string
  | JArr "json list"
  | JObj "(string \<times> json) list"

fun truthy :: "json \<Rightarrow> bool" where
  "truthy JNull = False"
| "truthy (JBool b) = b"
| "truthy (JNum n) = (n \<noteq> ''0'')"
| "truthy (JStr s) = (s \<noteq> [])"
| "truthy (JArr xs) = True"
| "truthy (JObj kvs) = True"

text \<open>\<open>v.k\<close> for a value \<open>v\<close> that is not \<open>null\<close>; none of the keys read in this program
  is a property of a string, number, boolean or array.\<close>

fun member :: "json \<Rightarrow> string \<Rightarrow> json option" where
  "member (JObj kvs) k = map_of kvs k"
| "member j k = None"

definition hex_digit :: "nat \<Rightarrow> char" where
  "hex_digit n = ''0123456789abcdef'' ! (n mod 16)"

definition escape_char :: "char \<Rightarrow> string" where
  "escape_char c =
     (if c = CHR 0x22 then [CHR 0x5C, CHR 0x22]
      else if c = CHR 0x5C then [CHR 0x5C, CHR 0x5C]
      else if c = CHR 0x08 then [CHR 0x5C, CHR ''b'']
      else if c = CHR 0x0C then [CHR 0x5C, CHR ''f'']
      else if c = CHR 0x0A then [CHR 0x5C, CHR ''n'']
      else if c = CHR 0x0D then [CHR 0x5C, CHR ''r'']
      else if c = CHR 0x09 then [CHR 0x5C, CHR ''t'']
      else if (of_char c :: nat) < 32
        then [CHR 0x5C, CHR ''u'', CHR ''0'', CHR ''0'',
              hex_digit (of_char c div 16), hex_digit (of_char c)]
      else [c])"

definition quote :: "string \<Rightarrow> string" where
  "quote s = [CHR 0x22] @ concat (map escape_char s) @ [CHR 0x22]"

fun join :: "string \<Rightarrow> string list \<Rightarrow> string" where
  "join sep [] = []"
| "join sep [x] = x"
| "join sep (x # y # ys) = x @ sep @ join sep (y # ys)"

fun JSON_stringify :: "json \<Rightarrow> string" where
  "JSON_stringify JNull = ''null''"
| "JSON_stringify (JBool b) = (if b then ''true'' else ''false'')"
| "JSON_stringify (JNum n) = n"
| "JSON_stringify (JStr s) = quote s"
| "JSON_stringify (JArr xs) = ''['' @ join '','' (map JSON_stringify xs) @ '']''"
| "JSON_stringify (JObj kvs) =
     ''{'' @ join '','' (map (\<lambda>kv. quote (fst kv) @ '':'' @ JSON_stringify (snd kv)) kvs) @ ''}''"

text \<open>The decimal text of a natural number, as a template literal prints \<open>res.status\<close>.\<close>

function dec :: "nat \<Rightarrow> string" where
  "dec n =
     (if n < 10 then [''0123456789'' ! n]
      else dec (n div 10) @ [''0123456789'' ! (n mod 10)])"
  by pat_completeness auto
termination
  by (relation "measure id") auto

declare dec.simps [simp del]

section \<open>Errors and outcomes\<close>

text \<open>
  A call that is awaited settles with a value or rejects with an \<open>Error\<close>; a block of
  code returns or throws one. The program reads nothing of an error but its message, so
  an outcome is the message (\<open>Inl\<close>) or the value (\<open>Inr\<close>). The messages of the
  \<open>TypeError\<close>s the engine raises are those of V8 (the image is \<open>node:18\<close>).
\<close>

type_synonym 'a outcome = "string + 'a"

definition read_of_null :: "string \<Rightarrow> string" where
  "read_of_null k = ''Cannot read properties of null (reading '' @ [CHR 0x27] @ k @ [CHR 0x27] @ '')''"

definition read_of_undefined :: "string \<Rightarrow> string" where
  "read_of_undefined k =
     ''Cannot read properties of undefined (reading '' @ [CHR 0x27] @ k @ [CHR 0x27] @ '')''"

definition destructure_of_null :: "string \<Rightarrow> string" where
  "destructure_of_null k =
     ''Cannot destructure property '' @ [CHR 0x27] @ k @ [CHR 0x27] @ '' of '' @ [CHR 0x27]
       @ ''JSON.parse(...)'' @ [CHR 0x27] @ '' as it is null.''"

text \<open>\<open>json.k\<close> where \<open>json\<close> may be \<open>null\<close>.\<close>

definition read_property :: "json \<Rightarrow> string \<Rightarrow> json option outcome" where
  "read_property j k = (case j of JNull \<Rightarrow> Inl (read_of_null k) | _ \<Rightarrow> Inr (member j k))"

text \<open>\<open>const { k } = v\<close>.\<close>

definition destructure :: "json \<Rightarrow> string \<Rightarrow> json option outcome" where
  "destructure v k = (case v of JNull \<Rightarrow> Inl (destructure_of_null k) | _ \<Rightarrow> Inr (member v k))"

text \<open>\<open>x ?? d\<close>.\<close>

definition nullish_or :: "json option \<Rightarrow> json \<Rightarrow> json" where
  "nullish_or x d = (case x of None \<Rightarrow> d | Some JNull \<Rightarrow> d | Some v \<Rightarrow> v)"

section \<open>HTTP calls (undici fetch)\<close>

text \<open>
  \<open>fetch\<close> is the environment: a function from the request to the outcome of the awaited
  call. Each function below arms a timer that aborts its request after \<open>timeoutMs\<close>; the
  abort is a rejection of \<open>fetch\<close> with the message \<open>Request timed out\<close>, one of the
  outcomes \<open>fetch\<close> can have. A response holds its status and what reading its body as
  text and as JSON settles with.
\<close>

record response =
  status :: nat
  body_text :: "string outcome"
  body_json :: "json outcome"

definition ok :: "response \<Rightarrow> bool" where
  "ok res = (200 \<le> status res \<and> status res \<le> 299)"

text \<open>\<open>await res.text().catch(() => "")\<close>.\<close>

definition text_or_empty :: "response \<Rightarrow> string" where
  "text_or_empty res = (case body_text res of Inl _ \<Rightarrow> [] | Inr txt \<Rightarrow> txt)"

datatype body = FormBody "(string \<times> string) list" | TextBody string

record request =
  url :: string
  verb :: string
  headers :: "(string \<times> string) list"
  payload :: body

type_synonym fetch = "request \<Rightarrow> response outcome"

section \<open>Credentials (tools.ts)\<close>

definition token_request :: "string \<Rightarrow> string \<Rightarrow> request" where
  "token_request client_id client_secret =
     \<lparr>url = ''https://uat-auth.peoplestrong.com/auth/realms/3/protocol/openid-connect/token'',
      verb = ''POST'',
      headers = [(''Content-Type'', ''application/x-www-form-urlencoded'')],
      payload = FormBody [(''grant_type'', ''client_credentials''),
                          (''client_id'', client_id),
                          (''client_secret'', client_secret)]\<rparr>"

text \<open>The body of the \<open>try\<close> block of \<open>fetchPSToken\<close>.\<close>

definition fetchPSToken_try :: "fetch \<Rightarrow> string \<Rightarrow> string \<Rightarrow> json outcome" where
  "fetchPSToken_try fetch client_id client_secret =
     (case fetch (token_request client_id client_secret) of
        Inl msg \<Rightarrow> Inl msg
      | Inr res \<Rightarrow>
          if \<not> ok res
          then Inl (''PeopleStrong responded '' @ dec (status res) @ '': '' @ text_or_empty res)
          else
            (case body_json res of
               Inl msg \<Rightarrow> Inl msg
             | Inr json \<Rightarrow>
                 (case read_property json ''access_token'' of
                    Inl msg \<Rightarrow> Inl msg
                  | Inr None \<Rightarrow> Inl ''No access_token in response''
                  | Inr (Some tok) \<Rightarrow>
                      if \<not> truthy tok then Inl ''No access_token in response''
                      else Inr tok)))"

text \<open>The \<open>catch\<close> block throws again, with a prefix.\<close>

definition fetchPSToken :: "fetch \<Rightarrow> string \<Rightarrow> string \<Rightarrow> json outcome" where
  "fetchPSToken fetch client_id client_secret =
     (case fetchPSToken_try fetch client_id client_secret of
        Inl msg \<Rightarrow> Inl (''fetchPSToken failed: '' @ msg)
      | Inr tok \<Rightarrow> Inr tok)"

record credential =
  apiKey :: json
  accessToken :: json

text \<open>\<open>session_token\<close> is \<open>process.env.PS_SESSION_TOKEN\<close>.\<close>

definition playground_request :: "string option \<Rightarrow> nat \<Rightarrow> string \<Rightarrow> string \<Rightarrow> request" where
  "playground_request session_token organizationId sysModuleName routePath =
     \<lparr>url = ''https://s2demo-admin.uat.peoplestrong.com/api/integration/client-config/kong/fetchPlaygroundInitObject'',
      verb = ''POST'',
      headers = [(''Accept'', ''*/*''),
                 (''Content-Type'', ''application/json''),
                 (''session-Token'', (case session_token of None \<Rightarrow> [] | Some s \<Rightarrow> s))],
      payload = TextBody (JSON_stringify (JObj
        [(''body'', JNull), (''subject'', JNull), (''sendTo'', JNull), (''cc'', JNull),
         (''bcc'', JNull),
         (''routePath'', JStr routePath),
         (''organizationId'', JNum (dec organizationId)),
         (''sysModuleName'', JStr sysModuleName)]))\<rparr>"

definition getPSTokenWithApiKey_try ::
  "fetch \<Rightarrow> string option \<Rightarrow> nat \<Rightarrow> string \<Rightarrow> string \<Rightarrow> credential outcome" where
  "getPSTokenWithApiKey_try fetch session_token organizationId sysModuleName routePath =
     (case fetch (playground_request session_token organizationId sysModuleName routePath) of
        Inl msg \<Rightarrow> Inl msg
      | Inr res \<Rightarrow>
          if \<not> ok res
          then Inl (''HTTP '' @ dec (status res) @ '': '' @ text_or_empty res)
          else
            (case body_json res of
               Inl msg \<Rightarrow> Inl msg
             | Inr json \<Rightarrow>
                 (case read_property json ''apiKey'' of
                    Inl msg \<Rightarrow> Inl msg
                  | Inr k \<Rightarrow>
                      (case read_property json ''accessToken'' of
                         Inl msg \<Rightarrow> Inl msg
                       | Inr a \<Rightarrow>
                           Inr \<lparr>apiKey = nullish_or k (JStr ''(no apiKey in response)''),
                                accessToken =
                                  nullish_or a (JStr ''(no accessToken in response)'')\<rparr>))))"

definition getPSTokenWithApiKey ::
  "fetch \<Rightarrow> string option \<Rightarrow> nat \<Rightarrow> string \<Rightarrow> string \<Rightarrow> credential outcome" where
  "getPSTokenWithApiKey fetch session_token organizationId sysModuleName routePath =
     (case getPSTokenWithApiKey_try fetch session_token organizationId sysModuleName routePath of
        Inl msg \<Rightarrow> Inl (''getPSTokenWithApiKey failed: '' @ msg)
      | Inr c \<Rightarrow> Inr c)"

section \<open>The integration call (tools.ts)\<close>

text \<open>The chain of \<open>&&\<close> that guards the read of the employee array, and the empty list
  the \<open>else\<close> branch leaves in \<open>employeeList\<close>.\<close>

definition employee_list :: "json \<Rightarrow> json list" where
  "employee_list toolResult =
     (if \<not> truthy toolResult then []
      else case member toolResult ''root'' of
        None \<Rightarrow> []
      | Some root \<Rightarrow>
          if \<not> truthy root then []
          else case member root ''EmployeeMaster'' of
            None \<Rightarrow> []
          | Some master \<Rightarrow>
              if \<not> truthy master then []
              else case member master ''EmployeeMasterData'' of
                Some (JArr xs) \<Rightarrow> xs
              | _ \<Rightarrow> [])"

definition post_request :: "string \<Rightarrow> json \<Rightarrow> string \<Rightarrow> string \<Rightarrow> request" where
  "post_request u args api_key access_token =
     \<lparr>url = u,
      verb = ''POST'',
      headers = [(''apikey'', api_key),
                 (''Authorization'', ''Bearer '' @ access_token),
                 (''Content-Type'', ''application/json'')],
      payload = TextBody (JSON_stringify args)\<rparr>"

definition psPost_try :: "fetch \<Rightarrow> string \<Rightarrow> json \<Rightarrow> string \<Rightarrow> string \<Rightarrow> string outcome" where
  "psPost_try fetch u args api_key access_token =
     (case fetch (post_request u args api_key access_token) of
        Inl msg \<Rightarrow> Inl msg
      | Inr res \<Rightarrow>
          if \<not> ok res
          then Inl (''API error '' @ dec (status res) @ '': '' @ text_or_empty res)
          else
            (case body_json res of
               Inl msg \<Rightarrow> Inl msg
             | Inr toolResult \<Rightarrow>
                 Inr (JSON_stringify (JArr (take 5 (employee_list toolResult))))))"

text \<open>The text the \<open>catch\<close> block of \<open>psPost\<close> returns: a cross mark (U+274C), the words,
  an en dash (U+2013) and the message.\<close>

definition error_text :: "string \<Rightarrow> string" where
  "error_text msg =
     [CHR 0xE2, CHR 0x9D, CHR 0x8C] @ '' Error fetching tokens '' @
     [CHR 0xE2, CHR 0x80, CHR 0x93] @ '' '' @ msg"

definition psPost :: "fetch \<Rightarrow> string \<Rightarrow> json \<Rightarrow> string \<Rightarrow> string \<Rightarrow> string outcome" where
  "psPost fetch u args api_key access_token =
     (case psPost_try fetch u args api_key access_token of
        Inl msg \<Rightarrow> Inr (error_text msg)
      | Inr toolResult \<Rightarrow> Inr toolResult)"


section \<open>The completion provider (main.ts)\<close>

text \<open>
  The file main.ts holds four successive versions of the server. \<open>runChatLLM\<close> is the
  same in all of them; \<open>sse_get\<close>, \<open>sse_close\<close> and \<open>post_messages\<close> below are the
  handlers of the current version (lines 261 to 296); \<open>runWithTools_weather\<close> and
  \<open>runWithTools\<close> are the function of the two versions that have it (lines 334 to 396
  and 771 to 878).
\<close>

text \<open>
  \<open>openai.chat.completions.create\<close> is the environment: a function from the request to
  the outcome of the awaited call. A completion is the list of its choices, each the
  message it holds (\<open>None\<close>: the choice has no message). A request is held by its model,
  its \<open>tool_choice\<close>, the names of the tools it offers and its messages.
\<close>

record tool_call =
  call_id :: string
  fn_name :: string
  fn_arguments :: string

record message =
  content :: "string option"
  tool_calls :: "tool_call list"

datatype chat_msg =
    System string
  | User string
  | Assistant message
  | Tool string string json

record chat_request =
  model :: string
  tool_choice :: "string option"
  tools :: "string list"
  messages :: "chat_msg list"

type_synonym completion = "message option list"

type_synonym provider = "chat_request \<Rightarrow> completion outcome"

text \<open>The calls a function makes to the provider and to the tool handlers, in order,
  are returned with its outcome.\<close>

datatype call =
    Chat chat_request
  | Weather "json option"
  | PSToken "json option" "json option"

type_synonym 'a traced = "call list \<times> 'a outcome"

definition andThen :: "'a traced \<Rightarrow> ('a \<Rightarrow> 'b traced) \<Rightarrow> 'b traced" where
  "andThen m f =
     (case m of
        (cs, Inl msg) \<Rightarrow> (cs, Inl msg)
      | (cs, Inr x) \<Rightarrow> (case f x of (cs', r) \<Rightarrow> (cs @ cs', r)))"

definition silent :: "'a outcome \<Rightarrow> 'a traced" where
  "silent r = ([], r)"

definition chat :: "provider \<Rightarrow> chat_request \<Rightarrow> completion traced" where
  "chat create req = ([Chat req], create req)"

text \<open>\<open>x.choices[0].message\<close>, of which the property \<open>k\<close> is read next.\<close>

definition first_message :: "completion \<Rightarrow> message option outcome" where
  "first_message choices =
     (case choices of [] \<Rightarrow> Inl (read_of_undefined ''message'') | m # _ \<Rightarrow> Inr m)"

definition defined :: "string \<Rightarrow> message option \<Rightarrow> message outcome" where
  "defined k m = (case m of None \<Rightarrow> Inl (read_of_undefined k) | Some msg \<Rightarrow> Inr msg)"

text \<open>\<open>c ?? "(no answer)"\<close>.\<close>

definition or_no_answer :: "string option \<Rightarrow> string" where
  "or_no_answer c = (case c of None \<Rightarrow> ''(no answer)'' | Some s \<Rightarrow> s)"

definition system_prompt :: chat_msg where
  "system_prompt = System ''You are a helpful HR assistant.''"

definition runChatLLM :: "provider \<Rightarrow> string \<Rightarrow> string traced" where
  "runChatLLM create prompt =
     andThen (chat create \<lparr>model = ''gpt-4o-mini'', tool_choice = None, tools = [],
                            messages = [system_prompt, User prompt]\<rparr>)
       (\<lambda>completion. andThen (silent (first_message completion))
       (\<lambda>m. silent (Inr (or_no_answer (case m of None \<Rightarrow> None | Some msg \<Rightarrow> content msg)))))"

section \<open>Tool calls in code: runWithTools (main.ts)\<close>

text \<open>
  \<open>JSON.parse\<close> and the tool handlers \<open>fetchWeather\<close> and \<open>fetchPSToken\<close> are
  parameters; a handler takes its arguments as the destructuring left them.
\<close>

definition first_request :: "string list \<Rightarrow> string \<Rightarrow> chat_request" where
  "first_request names prompt =
     \<lparr>model = ''gpt-4o-mini'', tool_choice = Some ''auto'', tools = names,
      messages = [system_prompt, User prompt]\<rparr>"

definition second_request :: "string \<Rightarrow> message \<Rightarrow> string \<Rightarrow> string \<Rightarrow> json \<Rightarrow> chat_request" where
  "second_request prompt msg name cid toolResult =
     \<lparr>model = ''gpt-4o-mini'', tool_choice = None, tools = [],
      messages = [system_prompt, User prompt, Assistant msg, Tool name cid toolResult]\<rparr>"

text \<open>Step 4 of both branches: the tool result goes back to the provider, whose reply
  is returned.\<close>

definition final_reply :: "provider \<Rightarrow> chat_request \<Rightarrow> string traced" where
  "final_reply create req =
     andThen (chat create req)
       (\<lambda>second. andThen (silent (first_message second))
       (\<lambda>m. andThen (silent (defined ''content'' m))
       (\<lambda>msg2. silent (Inr (or_no_answer (content msg2))))))"

definition weather_branch ::
  "provider \<Rightarrow> (string \<Rightarrow> json outcome) \<Rightarrow> (json option \<Rightarrow> string outcome) \<Rightarrow>
   string \<Rightarrow> message \<Rightarrow> tool_call \<Rightarrow> string traced" where
  "weather_branch create parse fetchWeather prompt msg c =
     andThen (silent (parse (fn_arguments c)))
       (\<lambda>parsed. andThen (silent (destructure parsed ''city''))
       (\<lambda>city. andThen ([Weather city], fetchWeather city)
       (\<lambda>toolResult.
          final_reply create
            (second_request prompt msg ''getWeather'' (call_id c) (JStr toolResult)))))"

text \<open>The text the \<open>catch\<close> around \<open>fetchPSToken\<close> leaves in \<open>toolResult\<close>: a cross mark
  (U+274C), two spaces, the words, an en dash (U+2013) and the message.\<close>

definition token_error_text :: "string \<Rightarrow> string" where
  "token_error_text msg =
     [CHR 0xE2, CHR 0x9D, CHR 0x8C] @ ''  Error fetching token '' @
     [CHR 0xE2, CHR 0x80, CHR 0x93] @ '' '' @ msg"

definition token_branch ::
  "provider \<Rightarrow> (string \<Rightarrow> json outcome) \<Rightarrow> (json option \<Rightarrow> json option \<Rightarrow> json outcome) \<Rightarrow>
   string \<Rightarrow> message \<Rightarrow> tool_call \<Rightarrow> string traced" where
  "token_branch create parse fetchToken prompt msg c =
     andThen (silent (parse (fn_arguments c)))
       (\<lambda>parsed. andThen (silent (destructure parsed ''client_id''))
       (\<lambda>client_id. andThen (silent (destructure parsed ''client_secret''))
       (\<lambda>client_secret.
          andThen ([PSToken client_id client_secret],
                   Inr (case fetchToken client_id client_secret of
                          Inl e \<Rightarrow> JStr (token_error_text e)
                        | Inr token \<Rightarrow> token))
       (\<lambda>toolResult.
          final_reply create
            (second_request prompt msg ''getPSToken'' (call_id c) toolResult)))))"

text \<open>The first version of \<open>runWithTools\<close> (the Thursday demo), which knows
  \<open>getWeather\<close> only.\<close>

definition runWithTools_weather ::
  "provider \<Rightarrow> (string \<Rightarrow> json outcome) \<Rightarrow> (json option \<Rightarrow> string outcome) \<Rightarrow>
   string \<Rightarrow> string traced" where
  "runWithTools_weather create parse fetchWeather prompt =
     andThen (chat create (first_request [''getWeather''] prompt))
       (\<lambda>first. andThen (silent (first_message first))
       (\<lambda>m. andThen (silent (defined ''tool_calls'' m))
       (\<lambda>msg.
          case tool_calls msg of
            [] \<Rightarrow> silent (Inr (or_no_answer (content msg)))
          | c # _ \<Rightarrow>
              if fn_name c = ''getWeather''
              then weather_branch create parse fetchWeather prompt msg c
              else silent (Inr (or_no_answer (content msg))))))"

text \<open>The later version, which knows \<open>getWeather\<close> and \<open>getPSToken\<close>.\<close>

definition runWithTools ::
  "provider \<Rightarrow> (string \<Rightarrow> json outcome) \<Rightarrow> (json option \<Rightarrow> string outcome) \<Rightarrow>
   (json option \<Rightarrow> json option \<Rightarrow> json outcome) \<Rightarrow> string \<Rightarrow> string traced" where
  "runWithTools create parse fetchWeather fetchToken prompt =
     andThen (chat create (first_request [''getWeather'', ''getPSToken''] prompt))
       (\<lambda>first. andThen (silent (first_message first))
       (\<lambda>m. andThen (silent (defined ''tool_calls'' m))
       (\<lambda>msg.
          case tool_calls msg of
            [] \<Rightarrow> silent (Inr (or_no_answer (content msg)))
          | c # _ \<Rightarrow>
              if fn_name c = ''getWeather''
              then weather_branch create parse fetchWeather prompt msg c
              else if fn_name c = ''getPSToken''
              then token_branch create parse fetchToken prompt msg c
              else silent (Inr (or_no_answer (content msg))))))"

section \<open>The HTTP layer (main.ts)\<close>

text \<open>
  \<open>streams\<close> maps a session id to its transport, named by a number. A frame is the
  object given to \<open>t.send\<close>, the list of its properties.
\<close>

type_synonym streams = "string \<rightharpoonup> nat"

type_synonym frame = "(string \<times> json) list"

text \<open>\<open>x || y\<close> on strings that may be missing, and \<open>String(x)\<close>.\<close>

definition js_or :: "string option \<Rightarrow> string option \<Rightarrow> string option" where
  "js_or x y = (case x of None \<Rightarrow> y | Some s \<Rightarrow> if s = [] then y else Some s)"

definition js_String :: "string option \<Rightarrow> string" where
  "js_String x = (case x of None \<Rightarrow> ''undefined'' | Some s \<Rightarrow> s)"

datatype sse_reply = BadRequest string | StreamOpened

text \<open>\<open>app.get("/sse")\<close>, given \<open>req.query.id\<close> and the transport it creates.\<close>

definition sse_get :: "string option \<Rightarrow> nat \<Rightarrow> streams \<Rightarrow> sse_reply \<times> streams" where
  "sse_get query_id t streams =
     (let sid = js_String (js_or query_id (Some [])) in
      if sid = [] then (BadRequest ''session id required'', streams)
      else (StreamOpened, streams(sid \<mapsto> t)))"

text \<open>The handler of the response's \<open>close\<close> event.\<close>

definition sse_close :: "string \<Rightarrow> streams \<Rightarrow> streams" where
  "sse_close sid streams = streams(sid := None)"

text \<open>
  The body of a message is read for its session id and its \<open>content\<close>, which the
  interface gives as a string. \<open>handlePostMessage\<close> of the transport is the environment:
  what is known of a run is the callbacks it fired, in order, and whether it rejected.
\<close>

record post =
  query_sessionId :: "string option"
  query_id :: "string option"
  body_sessionId :: "string option"
  body_id :: "string option"
  body_content :: "string option"

datatype event =
    AssistantToken string bool
  | AssistantMessage "(string \<times> json) list"
  | ToolResult "(string \<times> json) list"

record mcp_run =
  events :: "event list"
  rejected :: "string option"

text \<open>The frame a callback sends; \<open>{ ...msg, done: true }\<close> sets the property \<open>done\<close> of a
  copy of \<open>msg\<close>.\<close>

definition token_frame :: "string \<Rightarrow> bool \<Rightarrow> frame" where
  "token_frame c d = [(''role'', JStr ''assistant''), (''content'', JStr c), (''done'', JBool d)]"

fun frame_of :: "event \<Rightarrow> frame" where
  "frame_of (AssistantToken token is_last) = token_frame token is_last"
| "frame_of (AssistantMessage msg) = AList.update ''done'' (JBool True) msg"
| "frame_of (ToolResult msg) = AList.update ''done'' (JBool True) msg"

text \<open>What a post does: the status it answers with itself (the transport answers the
  others), the frames it sends on the session's transport, in order, the calls it makes,
  and the error it ends with when it throws.\<close>

record post_result =
  replied :: "nat option"
  sent :: "frame list"
  calls :: "call list"
  thrown :: "string option"

definition session_id :: "post \<Rightarrow> string" where
  "session_id req =
     js_String (js_or (js_or (js_or (js_or (query_sessionId req) (query_id req))
                                    (body_sessionId req)) (body_id req)) (Some []))"

definition post_messages ::
  "provider \<Rightarrow> (nat \<Rightarrow> post \<Rightarrow> mcp_run) \<Rightarrow> streams \<Rightarrow> post \<Rightarrow> post_result" where
  "post_messages create handlePostMessage streams req =
     (case streams (session_id req) of
        None \<Rightarrow> \<lparr>replied = Some 202, sent = [], calls = [], thrown = None\<rparr>
      | Some t \<Rightarrow>
          let run = handlePostMessage t req;
              saw = (events run \<noteq> []);
              frames = map frame_of (events run)
          in case rejected run of
               Some msg \<Rightarrow> \<lparr>replied = None, sent = frames, calls = [], thrown = Some msg\<rparr>
             | None \<Rightarrow>
                 if \<not> saw \<and> trim (js_String (js_or (body_content req) (Some []))) \<noteq> []
                 then
                   (case runChatLLM create (js_String (body_content req)) of
                      (cs, Inl msg) \<Rightarrow>
                        \<lparr>replied = None, sent = frames, calls = cs, thrown = Some msg\<rparr>
                    | (cs, Inr reply) \<Rightarrow>
                        \<lparr>replied = None, sent = frames @ [token_frame reply True],
                         calls = cs, thrown = None\<rparr>)
                 else \<lparr>replied = None, sent = frames, calls = [], thrown = None\<rparr>)"

section \<open>Notions used to state the properties\<close>


text \<open>The mark every error text of \<open>psPost\<close> starts with.\<close>

definition failure_mark :: string where
  "failure_mark = error_text []"

section \<open>Sample environments and inputs\<close>

text \<open>An environment that settles every call the same way.\<close>

definition always :: "'b \<Rightarrow> 'a \<Rightarrow> 'b" where
  "always r = (\<lambda>_. r)"

text \<open>A body of the integration endpoint that holds the rows \<open>xs\<close>, and seven rows.\<close>

definition hr_body :: "json list \<Rightarrow> json" where
  "hr_body xs =
     JObj [(''root'', JObj [(''EmployeeMaster'', JObj [(''EmployeeMasterData'', JArr xs)])])]"

definition seven_rows :: "json list" where
  "seven_rows = map (\<lambda>n. JObj [(''EmployeeCode'', JNum (dec n))]) [1, 2, 3, 4, 5, 6, 7]"

text \<open>A reply of the provider that asks for a tool no code knows.\<close>

definition salary_call :: message where
  "salary_call = \<lparr>content = None,
                   tool_calls = [\<lparr>call_id = ''call_1'', fn_name = ''getSalary'',
                                  fn_arguments = ''{}''\<rparr>]\<rparr>"


section \<open>Evaluation\<close>

text \<open>The definitions a closed instance is evaluated with.\<close>

lemmas string_eval =
  toLowerCase_def lower_char_def leading_space_def trailing_space_def white_space_def
  startsWith_def endsWith_def trimEnd.simps trim_def

lemmas json_eval = quote_def escape_char_def hex_digit_def dec.simps

lemmas tools_eval = ok_def text_or_empty_def always_def dec.simps


lemmas run_eval = andThen_def chat_def silent_def first_message_def defined_def always_def
  or_no_answer_def

section \<open>Properties of the field codes\<close>

lemma normalize_offered: "normalizeFieldCode ''Offered Date'' = ''Offered Date''"
  by (simp add: normalizeFieldCode_def string_eval)

lemma normalize_birth: "normalizeFieldCode ''Birth Date'' = ''Birth Date''"
  by (simp add: normalizeFieldCode_def string_eval)

lemma normalize_joining: "normalizeFieldCode ''Date Of Joining'' = ''Date Of Joining''"
  by (simp add: normalizeFieldCode_def string_eval)

lemma normalize_confirmation:
  "normalizeFieldCode ''Confirmation Date'' = ''Confirmation Date''"
  by (simp add: normalizeFieldCode_def string_eval)

lemma normalize_relieving: "normalizeFieldCode ''Date Of Relieving'' = ''Date Of Relieving''"
  by (simp add: normalizeFieldCode_def string_eval)

lemma normalize_retirement: "normalizeFieldCode ''Retirement Date'' = ''Retirement Date''"
  by (simp add: normalizeFieldCode_def string_eval)

lemma normalize_l1: "normalizeFieldCode ''L1ManagerName'' = ''L1ManagerName''"
  by (simp add: normalizeFieldCode_def string_eval)

lemma normalize_l2: "normalizeFieldCode ''L2ManagerName'' = ''L2ManagerName''"
  by (simp add: normalizeFieldCode_def string_eval)

text \<open>White space that is not ASCII is removed as well: a no-break space before
  \<open>DOB\<close>.\<close>

lemma normalize_no_break_space:
  "normalizeFieldCode ([CHR 0xC2, CHR 0xA0] @ ''DOB'') = ''Birth Date''"
  by (simp add: normalizeFieldCode_def string_eval)

lemmas normalize_canonical =
  normalize_offered normalize_birth normalize_joining normalize_confirmation
  normalize_relieving normalize_retirement normalize_l1 normalize_l2

text \<open>The result is one of the eight canonical names, or the input itself, and then no
  prefix rule matched the input.\<close>

lemma normalize_cases:
  "normalizeFieldCode s \<in> set [''Offered Date'', ''Birth Date'', ''Date Of Joining'',
      ''Confirmation Date'', ''Date Of Relieving'', ''Retirement Date'',
      ''L1ManagerName'', ''L2ManagerName'', s]"
  by (simp add: normalizeFieldCode_def Let_def)

text \<open>
  Claim C10. \<open>normalizeFieldCode\<close> is idempotent: applying it to its own result changes
  nothing, for every input string. A result that is not the input is one of the eight
  canonical names, which are ASCII; lower-cased and stripped of white space, each matches
  its own prefix rule again or no rule at all.
\<close>

theorem normalizeFieldCode_idempotent:
  "normalizeFieldCode (normalizeFieldCode s) = normalizeFieldCode s"
proof -
  have "normalizeFieldCode s \<in> set [''Offered Date'', ''Birth Date'', ''Date Of Joining'',
      ''Confirmation Date'', ''Date Of Relieving'', ''Retirement Date'',
      ''L1ManagerName'', ''L2ManagerName'', s]"
    by (rule normalize_cases)
  then consider
      "normalizeFieldCode s = ''Offered Date''"
    | "normalizeFieldCode s = ''Birth Date''"
    | "normalizeFieldCode s = ''Date Of Joining''"
    | "normalizeFieldCode s = ''Confirmation Date''"
    | "normalizeFieldCode s = ''Date Of Relieving''"
    | "normalizeFieldCode s = ''Retirement Date''"
    | "normalizeFieldCode s = ''L1ManagerName''"
    | "normalizeFieldCode s = ''L2ManagerName''"
    | "normalizeFieldCode s = s"
    by auto
  then show ?thesis
    by cases (simp_all add: normalize_canonical)
qed

section \<open>Properties of the integration call\<close>

lemma employee_list_at_path:
  assumes "map_of obj ''root'' = Some (JObj root)"
    and "map_of root ''EmployeeMaster'' = Some (JObj master)"
    and "map_of master ''EmployeeMasterData'' = Some (JArr xs)"
  shows "employee_list (JObj obj) = xs"
  using assms by (simp add: employee_list_def)

text \<open>
  Claim C2. When the integration endpoint answers a \<open>psPost\<close> call with a success
  status and a JSON body that holds a list at \<open>root.EmployeeMaster.EmployeeMasterData\<close>,
  the value returned is exactly the serialization of the first \<open>min 5 (length xs)\<close>
  entries of that list, in their order; a list of six or more entries is cut to five.
\<close>

theorem psPost_first_five:
  assumes "fetch (post_request u args k a) = Inr res"
    and "ok res"
    and "body_json res = Inr (JObj obj)"
    and "map_of obj ''root'' = Some (JObj root)"
    and "map_of root ''EmployeeMaster'' = Some (JObj master)"
    and "map_of master ''EmployeeMasterData'' = Some (JArr xs)"
  shows "psPost fetch u args k a = Inr (JSON_stringify (JArr (take 5 xs)))
         \<and> length (take 5 xs) = min 5 (length xs)
         \<and> (6 \<le> length xs \<longrightarrow> length (take 5 xs) = 5)"
proof -
  have "employee_list (JObj obj) = xs"
    using assms(4-6) by (rule employee_list_at_path)
  then have "psPost fetch u args k a = Inr (JSON_stringify (JArr (take 5 xs)))"
    using assms(1-3) by (simp add: psPost_def psPost_try_def)
  then show ?thesis by auto
qed

text \<open>Seven rows come back as the first five.\<close>

theorem psPost_first_five_witness:
  "length seven_rows = 7
   \<and> psPost (always (Inr \<lparr>status = 200, body_text = Inr [], body_json = Inr (hr_body seven_rows)\<rparr>))
        ''https://uat-api.peoplestrong.com/x'' (JObj []) ''key'' ''token''
      = Inr (JSON_stringify (JArr (take 5 seven_rows)))
   \<and> JSON_stringify (JArr (take 5 seven_rows))
      = ''[{'' @ [CHR 0x22] @ ''EmployeeCode'' @ [CHR 0x22] @ '':1},{'' @ [CHR 0x22] @ ''EmployeeCode'' @ [CHR 0x22] @ '':2},{''
        @ [CHR 0x22] @ ''EmployeeCode'' @ [CHR 0x22] @ '':3},{'' @ [CHR 0x22] @ ''EmployeeCode'' @ [CHR 0x22] @ '':4},{''
        @ [CHR 0x22] @ ''EmployeeCode'' @ [CHR 0x22] @ '':5}]''
   \<and> length (take 5 seven_rows) = 5"
proof -
  let ?res = "\<lparr>status = 200, body_text = Inr [], body_json = Inr (hr_body seven_rows)\<rparr>"
  have 1: "always (Inr ?res) (post_request ''https://uat-api.peoplestrong.com/x'' (JObj []) ''key'' ''token'') = Inr ?res"
    by (simp add: always_def)
  have 2: "ok ?res" by (simp add: ok_def)
  have 3: "body_json ?res = Inr (JObj [(''root'', JObj [(''EmployeeMaster'', JObj [(''EmployeeMasterData'', JArr seven_rows)])])])"
    by (simp add: hr_body_def)
  have 4: "map_of [(''root'', JObj [(''EmployeeMaster'', JObj [(''EmployeeMasterData'', JArr seven_rows)])])] ''root''
     = Some (JObj [(''EmployeeMaster'', JObj [(''EmployeeMasterData'', JArr seven_rows)])])" by simp
  have 5: "map_of [(''EmployeeMaster'', JObj [(''EmployeeMasterData'', JArr seven_rows)])] ''EmployeeMaster''
     = Some (JObj [(''EmployeeMasterData'', JArr seven_rows)])" by simp
  have 6: "map_of [(''EmployeeMasterData'', JArr seven_rows)] ''EmployeeMasterData'' = Some (JArr seven_rows)"
    by simp
  have 7: "length seven_rows = 7" by (simp add: seven_rows_def)
  have 8: "JSON_stringify (JArr (take 5 seven_rows))
      = ''[{'' @ [CHR 0x22] @ ''EmployeeCode'' @ [CHR 0x22] @ '':1},{'' @ [CHR 0x22] @ ''EmployeeCode'' @ [CHR 0x22] @ '':2},{''
        @ [CHR 0x22] @ ''EmployeeCode'' @ [CHR 0x22] @ '':3},{'' @ [CHR 0x22] @ ''EmployeeCode'' @ [CHR 0x22] @ '':4},{''
        @ [CHR 0x22] @ ''EmployeeCode'' @ [CHR 0x22] @ '':5}]''"
    by (simp add: seven_rows_def json_eval)
  note first_five = psPost_first_five [where fetch = "always (Inr ?res)" and res = ?res
      and u = "''https://uat-api.peoplestrong.com/x''" and args = "JObj []" and k = "''key''"
      and a = "''token''"]
  from first_five [OF 1 2 3 4 5 6] 7 8 show ?thesis by simp
qed

text \<open>
  Claim C3, as amended. A \<open>psPost\<close> call returns the error text of the message when
  \<open>fetch\<close> rejects (a network failure or the timeout), when the status is not a success
  status and when the body is not JSON; when the body is JSON in which the guard finds no
  employee array, it returns \<open>[]\<close>, the serialization of the empty list, which is not
  an error text. In every case the call returns a string: it throws nothing.
\<close>

theorem psPost_failures:
  "(fetch (post_request u args k a) = Inl msg \<longrightarrow>
      psPost fetch u args k a = Inr (error_text msg))
   \<and> (fetch (post_request u args k a) = Inr res \<and> \<not> ok res \<longrightarrow>
      psPost fetch u args k a
        = Inr (error_text (''API error '' @ dec (status res) @ '': '' @ text_or_empty res)))
   \<and> (fetch (post_request u args k a) = Inr res \<and> ok res \<and> body_json res = Inl msg \<longrightarrow>
      psPost fetch u args k a = Inr (error_text msg))
   \<and> (fetch (post_request u args k a) = Inr res \<and> ok res \<and> body_json res = Inr j
        \<and> employee_list j = [] \<longrightarrow>
      psPost fetch u args k a = Inr ''[]'')
   \<and> (\<exists>s. psPost fetch u args k a = Inr s)"
  by (simp add: psPost_def psPost_try_def split: sum.splits)

text \<open>A body with no nested field at all: the answer is \<open>[]\<close>, which does not start
  with the mark of an error text.\<close>

theorem psPost_empty_list_not_failure:
  "psPost (always (Inr \<lparr>status = 200, body_text = Inr ''{}'', body_json = Inr (JObj [])\<rparr>))
     ''https://uat-api.peoplestrong.com/x'' (JObj []) ''key'' ''token'' = Inr ''[]''
   \<and> \<not> startsWith ''[]'' failure_mark"
  by (simp add: psPost_def psPost_try_def employee_list_def tools_eval startsWith_def
      failure_mark_def error_text_def)

text \<open>One call for each of the four conditions.\<close>

theorem psPost_failures_witness:
  "psPost (always (Inl ''Request timed out'')) ''https://uat-api.peoplestrong.com/x'' (JObj [])
     ''key'' ''token'' = Inr (error_text ''Request timed out'')
   \<and> psPost (always (Inr \<lparr>status = 503, body_text = Inr ''down'', body_json = Inl ''unused''\<rparr>))
       ''https://uat-api.peoplestrong.com/x'' (JObj []) ''key'' ''token''
     = Inr (error_text ''API error 503: down'')
   \<and> psPost (always (Inr \<lparr>status = 200, body_text = Inr ''<html>'',
                           body_json = Inl ''Unexpected token < in JSON at position 0''\<rparr>))
       ''https://uat-api.peoplestrong.com/x'' (JObj []) ''key'' ''token''
     = Inr (error_text ''Unexpected token < in JSON at position 0'')
   \<and> psPost (always (Inr \<lparr>status = 200, body_text = Inr ''{}'', body_json = Inr (JObj [])\<rparr>))
       ''https://uat-api.peoplestrong.com/x'' (JObj []) ''key'' ''token'' = Inr ''[]''"
proof -
  let ?u = "''https://uat-api.peoplestrong.com/x''"
  let ?r1 = "\<lparr>status = 503, body_text = Inr ''down'', body_json = Inl ''unused''\<rparr>"
  let ?r2 = "\<lparr>status = 200, body_text = Inr ''<html>'',
              body_json = Inl ''Unexpected token < in JSON at position 0''\<rparr>"
  let ?r3 = "\<lparr>status = 200, body_text = Inr ''{}'', body_json = Inr (JObj [])\<rparr>"
  have a: "psPost (always (Inl ''Request timed out'')) ?u (JObj []) ''key'' ''token''
             = Inr (error_text ''Request timed out'')"
    using psPost_failures [where fetch = "always (Inl ''Request timed out'')" and u = ?u
        and args = "JObj []" and k = "''key''" and a = "''token''" and msg = "''Request timed out''"]
    by (simp add: always_def)
  have b: "psPost (always (Inr ?r1)) ?u (JObj []) ''key'' ''token''
             = Inr (error_text ''API error 503: down'')"
    using psPost_failures [where fetch = "always (Inr ?r1)" and u = ?u
        and args = "JObj []" and k = "''key''" and a = "''token''" and res = ?r1]
    by (simp add: tools_eval)
  have c: "psPost (always (Inr ?r2)) ?u (JObj []) ''key'' ''token''
             = Inr (error_text ''Unexpected token < in JSON at position 0'')"
    using psPost_failures [where fetch = "always (Inr ?r2)" and u = ?u
        and args = "JObj []" and k = "''key''" and a = "''token''" and res = ?r2
        and msg = "''Unexpected token < in JSON at position 0''"]
    by (simp add: tools_eval)
  have d: "psPost (always (Inr ?r3)) ?u (JObj []) ''key'' ''token'' = Inr ''[]''"
    using psPost_failures [where fetch = "always (Inr ?r3)" and u = ?u
        and args = "JObj []" and k = "''key''" and a = "''token''" and res = ?r3 and j = "JObj []"]
    by (simp add: tools_eval employee_list_def)
  from a b c d show ?thesis by simp
qed

section \<open>Properties of the credential exchange\<close>

text \<open>
  Claim C6, as amended. On a status that is not a success status both credential calls
  throw an error whose message holds the status and the text of the body. When the body
  of a success lacks \<open>access_token\<close> (or holds a falsy one), \<open>fetchPSToken\<close> throws an
  error that says so and holds neither status nor body. When the body of a success is an
  object, \<open>getPSTokenWithApiKey\<close> does not throw: it returns a credential in which a
  missing \<open>apiKey\<close> or \<open>accessToken\<close> is a placeholder text.
\<close>

theorem credential_failures:
  "(fetch (token_request cid secret) = Inr res \<and> \<not> ok res \<longrightarrow>
      fetchPSToken fetch cid secret
        = Inl (''fetchPSToken failed: PeopleStrong responded '' @ dec (status res) @ '': ''
               @ text_or_empty res))
   \<and> (fetch (token_request cid secret) = Inr res \<and> ok res \<and> body_json res = Inr (JObj obj)
        \<and> (map_of obj ''access_token'' = None
            \<or> (\<exists>v. map_of obj ''access_token'' = Some v \<and> \<not> truthy v)) \<longrightarrow>
      fetchPSToken fetch cid secret = Inl ''fetchPSToken failed: No access_token in response'')
   \<and> (fetch (playground_request session org sysModule route) = Inr res' \<and> \<not> ok res' \<longrightarrow>
      getPSTokenWithApiKey fetch session org sysModule route
        = Inl (''getPSTokenWithApiKey failed: HTTP '' @ dec (status res') @ '': ''
               @ text_or_empty res'))
   \<and> (fetch (playground_request session org sysModule route) = Inr res' \<and> ok res'
        \<and> body_json res' = Inr (JObj obj') \<longrightarrow>
      getPSTokenWithApiKey fetch session org sysModule route
        = Inr \<lparr>apiKey = nullish_or (map_of obj' ''apiKey'') (JStr ''(no apiKey in response)''),
               accessToken = nullish_or (map_of obj' ''accessToken'')
                               (JStr ''(no accessToken in response)'')\<rparr>)"
  by (auto simp: fetchPSToken_def fetchPSToken_try_def getPSTokenWithApiKey_def
      getPSTokenWithApiKey_try_def read_property_def)

text \<open>A success with an empty object: a credential of two placeholders is returned.\<close>

theorem getPSTokenWithApiKey_placeholders:
  "getPSTokenWithApiKey
     (always (Inr \<lparr>status = 200, body_text = Inr ''{}'', body_json = Inr (JObj [])\<rparr>))
     None 3 ''HRIS'' ''/api/integration/Outbound/PeopleStrongHRServices_HRIS_testAgent''
   = Inr \<lparr>apiKey = JStr ''(no apiKey in response)'',
          accessToken = JStr ''(no accessToken in response)''\<rparr>"
  by (simp add: getPSTokenWithApiKey_def getPSTokenWithApiKey_try_def read_property_def
      nullish_or_def tools_eval)

text \<open>A 401 for both calls, and a success that lacks the field for each.\<close>

theorem credential_failures_witness:
  "fetchPSToken (always (Inr \<lparr>status = 401, body_text = Inr ''unauthorized'',
                              body_json = Inl ''unused''\<rparr>)) ''id'' ''secret''
     = Inl ''fetchPSToken failed: PeopleStrong responded 401: unauthorized''
   \<and> fetchPSToken (always (Inr \<lparr>status = 200, body_text = Inr ''{}'',
                                body_json = Inr (JObj [(''token_type'', JStr ''Bearer'')])\<rparr>))
       ''id'' ''secret''
     = Inl ''fetchPSToken failed: No access_token in response''
   \<and> getPSTokenWithApiKey (always (Inr \<lparr>status = 401, body_text = Inr ''unauthorized'',
                                        body_json = Inl ''unused''\<rparr>)) None 3 ''HRIS'' ''/route''
     = Inl ''getPSTokenWithApiKey failed: HTTP 401: unauthorized''
   \<and> getPSTokenWithApiKey (always (Inr \<lparr>status = 200, body_text = Inr ''{}'',
                                        body_json = Inr (JObj [(''apiKey'', JStr ''k1'')])\<rparr>))
       None 3 ''HRIS'' ''/route''
     = Inr \<lparr>apiKey = JStr ''k1'', accessToken = JStr ''(no accessToken in response)''\<rparr>"
proof -
  let ?r1 = "\<lparr>status = 401, body_text = Inr ''unauthorized'', body_json = Inl ''unused''\<rparr>"
  let ?r2 = "\<lparr>status = 200, body_text = Inr ''{}'',
              body_json = Inr (JObj [(''token_type'', JStr ''Bearer'')])\<rparr>"
  let ?r3 = "\<lparr>status = 200, body_text = Inr ''{}'',
              body_json = Inr (JObj [(''apiKey'', JStr ''k1'')])\<rparr>"
  have a: "fetchPSToken (always (Inr ?r1)) ''id'' ''secret''
             = Inl ''fetchPSToken failed: PeopleStrong responded 401: unauthorized''"
    using credential_failures [where fetch = "always (Inr ?r1)" and cid = "''id''"
        and secret = "''secret''" and res = ?r1]
    by (simp add: tools_eval)
  have b: "fetchPSToken (always (Inr ?r2)) ''id'' ''secret''
             = Inl ''fetchPSToken failed: No access_token in response''"
    using credential_failures [where fetch = "always (Inr ?r2)" and cid = "''id''"
        and secret = "''secret''" and res = ?r2 and obj = "[(''token_type'', JStr ''Bearer'')]"]
    by (simp add: tools_eval)
  have c: "getPSTokenWithApiKey (always (Inr ?r1)) None 3 ''HRIS'' ''/route''
             = Inl ''getPSTokenWithApiKey failed: HTTP 401: unauthorized''"
    using credential_failures [where fetch = "always (Inr ?r1)" and session = None and org = 3
        and sysModule = "''HRIS''" and route = "''/route''" and res' = ?r1]
    by (simp add: tools_eval)
  have d: "getPSTokenWithApiKey (always (Inr ?r3)) None 3 ''HRIS'' ''/route''
             = Inr \<lparr>apiKey = JStr ''k1'', accessToken = JStr ''(no accessToken in response)''\<rparr>"
    using credential_failures [where fetch = "always (Inr ?r3)" and session = None and org = 3
        and sysModule = "''HRIS''" and route = "''/route''" and res' = ?r3
        and obj' = "[(''apiKey'', JStr ''k1'')]"]
    by (simp add: tools_eval nullish_or_def)
  from a b c d show ?thesis by simp
qed

section \<open>Properties of the HTTP layer\<close>






lemma frames_of_token_stream:
  "map frame_of (map (\<lambda>x. AssistantToken x False) cs @ [AssistantToken c True])
     = map (\<lambda>x. token_frame x False) cs @ [token_frame c True]"
  by simp












text \<open>
  Claim C8. A message posted for a session id that \<open>streams\<close> does not hold is answered
  with 202; no frame is sent, no call is made, nothing is thrown, and nothing is kept of
  the message.
\<close>

theorem post_without_session:
  assumes "streams (session_id req) = None"
  shows "post_messages create handlePostMessage streams req
           = \<lparr>replied = Some 202, sent = [], calls = [], thrown = None\<rparr>"
  using assms by (simp add: post_messages_def)

text \<open>A post for the id \<open>missing\<close> while only \<open>abc\<close> is open.\<close>

theorem post_without_session_witness:
  "[''abc'' \<mapsto> 1] (session_id \<lparr>query_sessionId = Some ''missing'', query_id = None,
        body_sessionId = None, body_id = None, body_content = Some ''hello''\<rparr>) = (None :: nat option)
   \<and> post_messages (always (Inr [Some \<lparr>content = Some ''hi'', tool_calls = []\<rparr>]))
       (always (always \<lparr>events = [AssistantMessage [(''content'', JStr ''hi'')]], rejected = None\<rparr>))
       [''abc'' \<mapsto> 1]
       \<lparr>query_sessionId = Some ''missing'', query_id = None,
        body_sessionId = None, body_id = None, body_content = Some ''hello''\<rparr>
     = \<lparr>replied = Some 202, sent = [], calls = [], thrown = None\<rparr>"
proof -
  let ?req = "\<lparr>query_sessionId = Some ''missing'', query_id = None,
        body_sessionId = None, body_id = None, body_content = Some ''hello''\<rparr>"
  have 1: "[''abc'' \<mapsto> 1] (session_id ?req) = (None :: nat option)"
    by (simp add: session_id_def js_or_def js_String_def)
  note accepted = post_without_session [where streams = "[''abc'' \<mapsto> 1]" and req = ?req
      and create = "always (Inr [Some \<lparr>content = Some ''hi'', tool_calls = []\<rparr>])"
      and handlePostMessage = "always (always \<lparr>events = [AssistantMessage [(''content'', JStr ''hi'')]], rejected = None\<rparr>)"]
  from accepted [OF 1] 1 show ?thesis by simp
qed

section \<open>Properties of the session registry\<close>

text \<open>
  Claim C5, as amended. Registering a session id that \<open>streams\<close> already holds is not
  refused: the stream is opened and \<open>streams\<close> maps the id to the new transport; every
  other id keeps its transport.
\<close>

theorem sse_get_replaces:
  assumes "sid \<noteq> []" and "streams sid = Some old"
  shows "sse_get (Some sid) t streams = (StreamOpened, streams(sid \<mapsto> t))
       \<and> snd (sse_get (Some sid) t streams) sid = Some t
       \<and> (\<forall>other. other \<noteq> sid \<longrightarrow> snd (sse_get (Some sid) t streams) other = streams other)"
  using assms by (simp add: sse_get_def js_String_def js_or_def)

text \<open>The id \<open>abc\<close>, bound to transport 1, is registered again with transport 2.\<close>

theorem sse_get_rebinds:
  "fst (sse_get (Some ''abc'') 2 [''abc'' \<mapsto> 1]) = StreamOpened
   \<and> snd (sse_get (Some ''abc'') 2 [''abc'' \<mapsto> 1]) ''abc'' = Some 2"
  by (simp add: sse_get_def js_or_def js_String_def)

text \<open>Two open sessions, of which \<open>abc\<close> is registered again.\<close>

theorem sse_get_replaces_witness:
  "[''abc'' \<mapsto> 1, ''xyz'' \<mapsto> 7] ''abc'' = Some (1::nat)
   \<and> fst (sse_get (Some ''abc'') 2 [''abc'' \<mapsto> 1, ''xyz'' \<mapsto> 7]) = StreamOpened
   \<and> snd (sse_get (Some ''abc'') 2 [''abc'' \<mapsto> 1, ''xyz'' \<mapsto> 7]) ''abc'' = Some 2
   \<and> snd (sse_get (Some ''abc'') 2 [''abc'' \<mapsto> 1, ''xyz'' \<mapsto> 7]) ''xyz'' = Some 7"
proof -
  have 1: "''abc'' \<noteq> []" by simp
  have 2: "[''abc'' \<mapsto> 1, ''xyz'' \<mapsto> 7] ''abc'' = Some (1::nat)" by simp
  note rebind = sse_get_replaces [where sid = "''abc''"
      and streams = "[''abc'' \<mapsto> 1, ''xyz'' \<mapsto> 7]" and old = 1 and t = 2]
  from rebind [OF 1 2] 2 show ?thesis by simp
qed

section \<open>Properties of runWithTools\<close>

text \<open>
  Claim C4, as amended. When the first reply of the provider asks for a tool that
  \<open>runWithTools\<close> does not match (in either version), no handler is called and the
  provider is not asked again: the only call is the first request, and the result is the
  text of that reply, or \<open>(no answer)\<close> when it has none.
\<close>

theorem runWithTools_unmatched_tool:
  "(create (first_request [''getWeather'', ''getPSToken''] prompt) = Inr (Some msg # rest)
      \<and> tool_calls msg = c # cs
      \<and> fn_name c \<noteq> ''getWeather'' \<and> fn_name c \<noteq> ''getPSToken''
    \<longrightarrow> runWithTools create parse fetchWeather fetchToken prompt
          = ([Chat (first_request [''getWeather'', ''getPSToken''] prompt)],
             Inr (or_no_answer (content msg))))
   \<and> (create (first_request [''getWeather''] prompt) = Inr (Some msg' # rest')
      \<and> tool_calls msg' = c' # cs'
      \<and> fn_name c' \<noteq> ''getWeather''
    \<longrightarrow> runWithTools_weather create parse fetchWeather prompt
          = ([Chat (first_request [''getWeather''] prompt)],
             Inr (or_no_answer (content msg'))))"
  by (simp add: runWithTools_def runWithTools_weather_def andThen_def chat_def silent_def
      first_message_def defined_def)

text \<open>A reply that asks for \<open>getSalary\<close> and has no text: the result is \<open>(no answer)\<close>,
  not a failure that says the tool was not found.\<close>

theorem runWithTools_no_failure:
  "runWithTools (always (Inr [Some salary_call])) (always (Inr (JObj [])))
     (always (Inl ''unused'')) (always (always (Inl ''unused''))) ''What is my salary?''
   = ([Chat (first_request [''getWeather'', ''getPSToken''] ''What is my salary?'')],
      Inr ''(no answer)'')"
  by (simp add: runWithTools_def run_eval salary_call_def)

text \<open>The same reply, given to both versions.\<close>

theorem runWithTools_unmatched_tool_witness:
  "runWithTools (always (Inr [Some salary_call])) (always (Inr (JObj [])))
     (always (Inl ''unused'')) (always (always (Inl ''unused''))) ''What is my salary?''
   = ([Chat (first_request [''getWeather'', ''getPSToken''] ''What is my salary?'')],
      Inr ''(no answer)'')
   \<and> runWithTools_weather (always (Inr [Some salary_call])) (always (Inr (JObj [])))
     (always (Inl ''unused'')) ''What is my salary?''
   = ([Chat (first_request [''getWeather''] ''What is my salary?'')], Inr ''(no answer)'')"
  using runWithTools_unmatched_tool [where create = "always (Inr [Some salary_call])"
      and prompt = "''What is my salary?''" and msg = salary_call and rest = "[]"
      and c = "\<lparr>call_id = ''call_1'', fn_name = ''getSalary'', fn_arguments = ''{}''\<rparr>"
      and cs = "[]" and msg' = salary_call and rest' = "[]"
      and c' = "\<lparr>call_id = ''call_1'', fn_name = ''getSalary'', fn_arguments = ''{}''\<rparr>"
      and cs' = "[]" and parse = "always (Inr (JObj []))" and fetchWeather = "always (Inl ''unused'')"
      and fetchToken = "always (always (Inl ''unused''))"]
  by (simp add: always_def salary_call_def or_no_answer_def)

end
